theory Spec2Isabelle
  imports Complex_Main
begin

section \<open>Numbers, errors and containers of the Python source\<close>

text \<open>
  The equipment module of breakwater (\<^verbatim>\<open>src/breakwater/equipment/equipment.py\<close>) computes
  with Python numbers. They are modelled as \<^typ>\<open>real\<close>; the two places where the source
  itself produces an infinity (\<^verbatim>\<open>float("inf")\<close> as standing length of a barge,
  \<^verbatim>\<open>float("-inf")\<close> as payload sentinel of a crane) use the type \<open>pyfloat\<close> below.
  Every \<^verbatim>\<open>raise\<close> and every failing builtin of the source is a value \<open>Inl e\<close> of the model.
  Plotting (\<^verbatim>\<open>plot=True\<close>) is rendering only; the model is the source with \<^verbatim>\<open>plot=False\<close>.
\<close>

datatype error =
  ValueError | ZeroDivisionError | KeyError | IndexError | TypeError | UserWarning | GeometryError

datatype pyfloat = NegInf | Fin real | PosInf

fun float_le :: "pyfloat \<Rightarrow> pyfloat \<Rightarrow> bool" where
  "float_le NegInf b = True"
| "float_le (Fin a) NegInf = False"
| "float_le (Fin a) (Fin b) = (a \<le> b)"
| "float_le (Fin a) PosInf = True"
| "float_le PosInf PosInf = True"
| "float_le PosInf b = False"

type_synonym coords = "(real \<times> real) list"

text \<open>
  Python's \<^verbatim>\<open>min\<close> and \<^verbatim>\<open>max\<close> of a sequence raise ValueError on the empty one.
  \<open>py_min\<close> and \<open>py_max\<close> are the two builtins on a non-empty sequence; every use below
  is guarded by the test that makes the source raise on the empty one (the unpacking of
  \<^verbatim>\<open>zip(*section_coords)\<close>, an empty chart row, an empty selection).
\<close>

definition py_min :: "real list \<Rightarrow> real" where
  "py_min xs = fold min (tl xs) (hd xs)"

definition py_max :: "real list \<Rightarrow> real" where
  "py_max xs = fold max (tl xs) (hd xs)"

section \<open>Equipment\<close>

text \<open>
  \<^verbatim>\<open>design_type\<close> is the dict \<^verbatim>\<open>{grading: {'cost': .., 'CO2': .., 'production_rate': ..}}\<close>;
  a grading is buildable when it is a key of it.
\<close>

type_synonym design_type = "string \<rightharpoonup> (string \<rightharpoonup> real)"

record Equipment =
  name :: string
  design_type :: design_type
  mobilisation_cost :: "string \<rightharpoonup> real"
  equipment_cost :: "string \<rightharpoonup> real"
  waterlvl :: real

datatype equipment_kind = KTruck | KPlateFeeder | KExcavator | KCrane | KVessel | KBarge

text \<open>
  \<^verbatim>\<open>Equipment.location_equipment(self, *args, xpoint, section_coords, equip,
  y_installation_waterdepth=0, height=0, ymax=0)\<close>. The argument \<^verbatim>\<open>equip\<close> is only asked
  \<^verbatim>\<open>isinstance(equip, Barge)\<close>, so the model passes its kind. Unpacking
  \<^verbatim>\<open>zip(*section_coords)\<close> into two names fails on the empty list.
\<close>

definition location_equipment ::
  "real list \<Rightarrow> real \<Rightarrow> coords \<Rightarrow> equipment_kind \<Rightarrow> real \<Rightarrow> real \<Rightarrow> real
    \<Rightarrow> error + (real \<times> real \<times> bool)" where
  "location_equipment args xpoint section_coords equip y_installation_waterdepth height ymax =
     (if section_coords = [] then Inl ValueError
      else
        let x_section = map fst section_coords in
        if equip = KBarge then
          (let yloc_equip = y_installation_waterdepth + height in
           if list_all (\<lambda>x. x \<ge> 0) x_section
           then Inr (xpoint + sum_list args, yloc_equip, True)
           else Inr (- xpoint - sum_list args, yloc_equip, False))
        else
          (let yloc_equip = ymax in
           if list_all (\<lambda>x. x \<ge> 0) x_section
           then Inr (xpoint - sum_list args, yloc_equip, False)
           else Inr (- xpoint + sum_list args, yloc_equip, True)))"

text \<open>
  \<^verbatim>\<open>Equipment.get_production_rate(self, layer, grading_layer)\<close>. The method writes into
  \<^verbatim>\<open>self.design_type\<close> before it raises, so the model returns the equipment as the call leaves
  it, next to the result.
\<close>

definition get_production_rate ::
  "Equipment \<Rightarrow> string \<Rightarrow> string \<Rightarrow> (error + real) \<times> Equipment" where
  "get_production_rate self layer grading_layer =
     (case design_type self grading_layer of
        None \<Rightarrow> (Inl KeyError, self)
      | Some d \<Rightarrow>
        (case d ''production_rate'' of
           None \<Rightarrow>
             (Inl UserWarning,
              self\<lparr>design_type := (design_type self)(grading_layer \<mapsto> d(''production_rate'' \<mapsto> 1))\<rparr>)
         | Some rate \<Rightarrow> (Inr rate, self)))"

section \<open>Truck, PlateFeeder and Vessel\<close>

record Truck = Equipment +
  h_dry :: real
  required_length :: real
  level :: "real option"

text \<open>
  \<^verbatim>\<open>Truck.install(self, layer, grading_layer, ymax, section_coords, length_top, plot=False)\<close>
  stores \<^verbatim>\<open>self.level\<close>; the truck is returned with it.
\<close>

definition Truck_install ::
  "Truck \<Rightarrow> string \<Rightarrow> string \<Rightarrow> real \<Rightarrow> coords \<Rightarrow> real \<Rightarrow> error + (bool \<times> Truck)" where
  "Truck_install self layer grading_layer ymax section_coords length_top =
     (if section_coords = [] then Inl ValueError
      else
        let y = map snd section_coords;
            y_start = py_min y;
            lvl = max (y_start - waterlvl self) (ymax - waterlvl self);
            self' = self\<lparr>level := Some lvl\<rparr>;
            install =
              (grading_layer \<in> dom (design_type self) \<and>
               lvl \<ge> Truck.h_dry self \<and> length_top \<ge> Truck.required_length self)
        in Inr (install, self'))"

record PlateFeeder = Equipment +
  h_dry :: real
  top_installation :: real

text \<open>
  \<^verbatim>\<open>PlateFeeder.install(self, layer, grading_layer, ymax, section_coords, level=None,
  plot=False)\<close>; \<open>level_arg\<close> is the parameter \<^verbatim>\<open>level\<close>.
\<close>

definition PlateFeeder_install ::
  "PlateFeeder \<Rightarrow> string \<Rightarrow> string \<Rightarrow> real \<Rightarrow> coords \<Rightarrow> real option \<Rightarrow> error + bool" where
  "PlateFeeder_install self layer grading_layer ymax section_coords level_arg =
     (if section_coords = [] then Inl ValueError
      else
        let y = map snd section_coords;
            y_start = py_min y;
            y_top = py_max y;
            lvl = (case level_arg of
                     None \<Rightarrow> max (y_start - waterlvl self) (ymax - waterlvl self)
                   | Some l \<Rightarrow> l)
        in Inr (grading_layer \<in> dom (design_type self) \<and>
                lvl \<ge> PlateFeeder.h_dry self \<and> y_top \<le> lvl + top_installation self))"

record Vessel = Equipment +
  installation_waterdepth :: real
  ukc :: real


section \<open>Excavator\<close>

text \<open>
  The loading chart \<^verbatim>\<open>{2: {'x': [14, 18, ..], 'w': [9.6, 10, ..]}, 1: {..}}\<close> is a dict from
  a relative elevation to a row of reaches and payloads. It is kept as the list of its items
  (a dict has each key once; \<open>map_of\<close> is the lookup).
\<close>

record chart_row =
  row_x :: "real list"
  row_w :: "real list"

type_synonym loading_chart = "(real \<times> chart_row) list"

record Excavator = Equipment +
  loading_chart :: loading_chart
  h_dry :: real
  offset :: real
  required_length :: real

text \<open>\<^verbatim>\<open>sorted(ps, key=lambda tup: tup[1], reverse=True)\<close> is stable, also in reverse.\<close>

definition sorted_by_y :: "coords \<Rightarrow> coords" where
  "sorted_by_y ps = sort_key snd ps"

definition sorted_by_y_reverse :: "coords \<Rightarrow> coords" where
  "sorted_by_y_reverse ps = rev (sort_key snd (rev ps))"

text \<open>\<^verbatim>\<open>np.unique\<close>: the sorted distinct values.\<close>

definition np_unique :: "real list \<Rightarrow> real list" where
  "np_unique ys = sort (remdups ys)"

text \<open>
  \<^verbatim>\<open>Excavator.rotate_loading_chart(self, points_chart, xloc_equip, yloc_equip)\<close>: the
  unpacking of \<^verbatim>\<open>np.array(list(zip(*points_chart)))\<close> into \<^verbatim>\<open>x, y\<close> fails on no points. It returns
  the ring of the flipped polygon (the polygon itself is built by the caller's geometry step
  below) and the flipped chart.
\<close>

definition rotate_loading_chart ::
  "Excavator \<Rightarrow> coords \<Rightarrow> real \<Rightarrow> real \<Rightarrow> error + (coords \<times> loading_chart)" where
  "rotate_loading_chart self points_chart xloc_equip yloc_equip =
     (if points_chart = [] then Inl ValueError
      else
        let new_points = map (\<lambda>(x, y). (x - 2 * \<bar>x - xloc_equip\<bar>, y)) points_chart;
            loadingchart_flip =
              map (\<lambda>(key, items).
                     (key + yloc_equip,
                      \<lparr>row_x = map (\<lambda>x. x - 2 * (x - xloc_equip) - xloc_equip) (row_x items),
                       row_w = row_w items\<rparr>))
                  (loading_chart self)
        in Inr (new_points, loadingchart_flip))"

text \<open>
  The first loop of \<^verbatim>\<open>chart_location\<close>: \<^verbatim>\<open>max(items["x"])\<close> and \<^verbatim>\<open>min(items["x"])\<close> of every
  row, in the order of the dict; an empty row raises.
\<close>

fun chart_points :: "loading_chart \<Rightarrow> real \<Rightarrow> real \<Rightarrow> error + (coords \<times> coords)" where
  "chart_points [] xloc_equip yloc_equip = Inr ([], [])"
| "chart_points ((key, items) # rest) xloc_equip yloc_equip =
     (if row_x items = [] then Inl ValueError
      else
        let xmin = py_max (row_x items); xmax = py_min (row_x items) in
        (case chart_points rest xloc_equip yloc_equip of
           Inl e \<Rightarrow> Inl e
         | Inr (points_max, points_min) \<Rightarrow>
             Inr ((xmax + xloc_equip, key + yloc_equip) # points_max,
                  (xmin + xloc_equip, key + yloc_equip) # points_min)))"

text \<open>
  \<^verbatim>\<open>Excavator.chart_location(self, xloc_equip, yloc_equip, x_section, y_section, flip)\<close>.
  The polygons are built and compared by the geometry library shapely
  (\<^verbatim>\<open>Polygon(points)\<close>, \<^verbatim>\<open>section_polygon.within(loading_polygon)\<close>), which is not part of
  the repository. \<^verbatim>\<open>install\<close> reads only the translated chart of the result, so the model takes
  the library as the parameter \<open>shapely_ok ring section\<close>: whether it builds the two polygons
  from these rings and compares them without raising.
\<close>

definition chart_location ::
  "(coords \<Rightarrow> coords \<Rightarrow> bool) \<Rightarrow> Excavator \<Rightarrow> real \<Rightarrow> real \<Rightarrow> real list \<Rightarrow> real list \<Rightarrow> bool
    \<Rightarrow> error + loading_chart" where
  "chart_location shapely_ok self xloc_equip yloc_equip x_section y_section flip =
     (case chart_points (loading_chart self) xloc_equip yloc_equip of
        Inl e \<Rightarrow> Inl e
      | Inr (points_max, points_min) \<Rightarrow>
        let points = sorted_by_y points_max @ sorted_by_y_reverse points_min in
        (case (if flip then rotate_loading_chart self points xloc_equip yloc_equip
               else Inr (points,
                         map (\<lambda>(key, items).
                                (key + yloc_equip,
                                 \<lparr>row_x = map (\<lambda>x. x + xloc_equip) (row_x items),
                                  row_w = row_w items\<rparr>))
                             (loading_chart self))) of
           Inl e \<Rightarrow> Inl e
         | Inr (ring, loadingchart) \<Rightarrow>
             if shapely_ok ring (zip x_section y_section) then Inr loadingchart
             else Inl GeometryError))"

text \<open>
  The loop \<^verbatim>\<open>for d_y in dy\<close> of \<^verbatim>\<open>install\<close>: the chart row nearest at or beyond each distinct
  elevation. \<open>None\<close> is the \<^verbatim>\<open>return False\<close> inside the loop.
\<close>

fun ychart_of :: "real list \<Rightarrow> real list \<Rightarrow> real list option" where
  "ychart_of yload_chart [] = Some []"
| "ychart_of yload_chart (d_y # rest) =
     (if d_y < 0 then
        (let r = filter (\<lambda>k. k \<le> d_y) yload_chart in
         if length r = 0 then None
         else map_option (\<lambda>ychart. py_max r # ychart) (ychart_of yload_chart rest))
      else
        (let r = filter (\<lambda>k. k \<ge> d_y) yload_chart in
         if length r = 0 then None
         else map_option (\<lambda>ychart. py_min r # ychart) (ychart_of yload_chart rest)))"

text \<open>
  One round of the loop \<^verbatim>\<open>for x, y in xy\<close>: \<^verbatim>\<open>np.where(masses >= mass)[0]\<close> are the indices of
  the sufficient payloads, and indexing the reaches with them raises beyond their length.
\<close>

definition reach_at :: "loading_chart \<Rightarrow> real \<Rightarrow> real \<times> real \<Rightarrow> error + bool" where
  "reach_at load_chart mass xy =
     (case xy of (x, y) \<Rightarrow>
       (case map_of load_chart y of
          None \<Rightarrow> Inl KeyError
        | Some items \<Rightarrow>
          let masses = row_w items;
              idx = filter (\<lambda>i. masses ! i \<ge> mass) [0..<length masses]
          in if list_ex (\<lambda>i. i \<ge> length (row_x items)) idx then Inl IndexError
             else
               let xreaches = map (\<lambda>i. row_x items ! i) idx;
                   xdiff = map (\<lambda>xr. \<bar>xr\<bar> - \<bar>x\<bar>) xreaches
               in Inr (list_ex (\<lambda>d. d \<ge> 0) xdiff)))"

fun all_reach_of :: "loading_chart \<Rightarrow> real \<Rightarrow> (real \<times> real) list \<Rightarrow> error + bool list" where
  "all_reach_of load_chart mass [] = Inr []"
| "all_reach_of load_chart mass (xy # rest) =
     (case reach_at load_chart mass xy of
        Inl e \<Rightarrow> Inl e
      | Inr b \<Rightarrow>
        (case all_reach_of load_chart mass rest of
           Inl e \<Rightarrow> Inl e
         | Inr bs \<Rightarrow> Inr (b # bs)))"

text \<open>
  \<^verbatim>\<open>Excavator.install\<close> up to its slope fallback. \<open>loc\<close> is the pair
  \<^verbatim>\<open>xloc_equip, yloc_equip\<close> (every caller passes both or neither). The result \<open>Inr None\<close> is
  the \<^verbatim>\<open>return False\<close> of the elevation loop; \<open>Inr (Some install)\<close> is the value of
  \<^verbatim>\<open>install\<close> when the fallback test is reached.
\<close>

definition Excavator_direct ::
  "(coords \<Rightarrow> coords \<Rightarrow> bool) \<Rightarrow> Excavator \<Rightarrow> string \<Rightarrow> real \<Rightarrow> coords \<Rightarrow> real \<Rightarrow> real
    \<Rightarrow> pyfloat \<Rightarrow> (real \<times> real) option \<Rightarrow> error + bool option" where
  "Excavator_direct shapely_ok self grading_layer ymax section_coords xmax_top mass length_top loc =
     (if section_coords = [] then Inl ValueError
      else
        let x_section = map fst section_coords;
            y_section = map snd section_coords
        in
        (case (case loc of
                 None \<Rightarrow>
                   location_equipment [Excavator.offset self] xmax_top section_coords
                     KExcavator 0 0 ymax
               | Some (xl, yl) \<Rightarrow> Inr (xl, yl, False)) of
           Inl e \<Rightarrow> Inl e
         | Inr (xloc_equip, yloc_equip, flip) \<Rightarrow>
           let dy = np_unique y_section in
           (case chart_location shapely_ok self xloc_equip yloc_equip x_section y_section flip of
              Inl e \<Rightarrow> Inl e
            | Inr load_chart \<Rightarrow>
              let yload_chart = map fst load_chart in
              (case ychart_of yload_chart dy of
                 None \<Rightarrow> Inr None
               | Some ychart \<Rightarrow>
                 let xlevels =
                       map (\<lambda>y. if \<not> flip
                                then py_min (map fst (filter (\<lambda>p. snd p = y) section_coords))
                                else py_max (map fst (filter (\<lambda>p. snd p = y) section_coords)))
                           (np_unique y_section);
                     xy = zip xlevels ychart
                 in
                 (case all_reach_of load_chart mass xy of
                    Inl e \<Rightarrow> Inl e
                  | Inr all_reach \<Rightarrow>
                    let y_start = py_min y_section;
                        install =
                          (grading_layer \<in> dom (design_type self) \<and>
                           ((y_start - waterlvl self) \<ge> Excavator.h_dry self \<or>
                            ((ymax - waterlvl self) \<ge> Excavator.h_dry self \<and>
                             list_all (\<lambda>b. b) all_reach \<and>
                             float_le (Fin (Excavator.required_length self)) length_top)))
                    in Inr (Some install))))))"

text \<open>
  \<^verbatim>\<open>Excavator.install(self, layer, grading_layer, ymax, section_coords, xmax_top, mass,
  length_top, slope, plot=False, xloc_equip=None, yloc_equip=None)\<close>. The slope is the tuple
  \<^verbatim>\<open>(V, H)\<close>; \<^verbatim>\<open>H/V\<close> raises ZeroDivisionError when \<^verbatim>\<open>V\<close> is 0.
\<close>

function Excavator_install ::
  "(coords \<Rightarrow> coords \<Rightarrow> bool) \<Rightarrow> Excavator \<Rightarrow> string \<Rightarrow> string \<Rightarrow> real \<Rightarrow> coords \<Rightarrow> real \<Rightarrow> real
    \<Rightarrow> pyfloat \<Rightarrow> real \<times> real \<Rightarrow> (real \<times> real) option \<Rightarrow> error + bool" where
  "Excavator_install shapely_ok self layer grading_layer ymax section_coords xmax_top mass
       length_top slope loc =
     (case Excavator_direct shapely_ok self grading_layer ymax section_coords xmax_top mass
             length_top loc of
        Inl e \<Rightarrow> Inl e
      | Inr None \<Rightarrow> Inr False
      | Inr (Some install) \<Rightarrow>
          if ymax > waterlvl self + Excavator.h_dry self \<and> \<not> install \<and> slope \<noteq> (0, 0) then
            (let dy = ymax - (waterlvl self + Excavator.h_dry self);
                 V = fst slope;
                 H = snd slope
             in if V = 0 then Inl ZeroDivisionError
                else
                  let xmax_top' = xmax_top - H / V * dy in
                  Excavator_install shapely_ok self layer grading_layer
                    (waterlvl self + Excavator.h_dry self) section_coords xmax_top' mass
                    (Fin (2 * \<bar>xmax_top'\<bar>)) slope None)
          else Inr install)"
  by pat_completeness auto
termination
  by (relation "measure (\<lambda>(shapely_ok, self, layer, grading_layer, ymax, rest).
                   if ymax > waterlvl self + Excavator.h_dry self then 1 else 0)") auto

declare Excavator_install.simps [simp del]

section \<open>Crane\<close>

text \<open>
  The loading chart of a crane is a pandas DataFrame: the index holds the radii, the columns
  are named by the boom lengths, a cell is the maximum payload. It is kept as the list of its
  rows, each row the list of its cells \<open>(boom length, payload)\<close> that hold a number
  (\<^verbatim>\<open>stack\<close> drops the empty cells, and no comparison holds of one). The pandas calls are
  modelled by what they return: \<^verbatim>\<open>radii[radii >= max_dist_x].min()\<close> is NaN when no radius is
  large enough, and then \<^verbatim>\<open>loading_chart.index == r\<close> selects no row.
\<close>

type_synonym crane_chart = "(real \<times> (real \<times> real) list) list"

record Crane = Equipment +
  loading_chart :: crane_chart
  h_dry :: real
  offset :: real
  required_length :: real

text \<open>Python's \<^verbatim>\<open>max\<close> of a non-empty sequence of pairs: lexicographic, the first maximum.\<close>

definition tuple_less :: "real \<times> real \<Rightarrow> real \<times> real \<Rightarrow> bool" where
  "tuple_less a b = (fst a < fst b \<or> (fst a = fst b \<and> snd a < snd b))"

definition py_max_tuple :: "(real \<times> real) list \<Rightarrow> real \<times> real" where
  "py_max_tuple ps = fold (\<lambda>p m. if tuple_less m p then p else m) (tl ps) (hd ps)"

text \<open>\<^verbatim>\<open>np.sqrt\<close> of a negative number is NaN (\<open>None\<close>), and no comparison with NaN holds.\<close>

definition np_sqrt :: "real \<Rightarrow> real option" where
  "np_sqrt d = (if d < 0 then None else Some (sqrt d))"

definition le_nan :: "real \<Rightarrow> real option \<Rightarrow> bool" where
  "le_nan h hmax = (case hmax of None \<Rightarrow> False | Some m \<Rightarrow> h \<le> m)"

text \<open>
  The cells of the chart at the smallest radius that is at least \<open>max_dist_x\<close>, each with its
  index \<open>(radius, boom length)\<close> as \<^verbatim>\<open>df.stack()\<close> gives them.
\<close>

definition crane_cells :: "crane_chart \<Rightarrow> real \<Rightarrow> ((real \<times> real) \<times> real) list" where
  "crane_cells chart max_dist_x =
     (let radii = map fst chart;
          sel = filter (\<lambda>r. r \<ge> max_dist_x) radii
      in if sel = [] then []
         else
           let r = py_min sel in
           concat (map (\<lambda>(rad, row). map (\<lambda>(boom, m). ((rad, boom), m)) row)
                       (filter (\<lambda>(rad, row). rad = r) chart)))"

text \<open>
  The payload search of \<^verbatim>\<open>Crane.install\<close>: \<open>(M_max, r, l_boom)\<close>.
\<close>

definition crane_capacity :: "crane_chart \<Rightarrow> real \<Rightarrow> real \<Rightarrow> pyfloat \<times> real \<times> real" where
  "crane_capacity chart max_dist_x mass =
     (let df = filter (\<lambda>(idx, m). m \<ge> mass) (crane_cells chart max_dist_x)
      in if length df = 0 then (NegInf, 0, 0)
         else (Fin (py_max (map snd df)), py_max_tuple (map fst df)))"

text \<open>\<^verbatim>\<open>max_dist_x = max(abs(np.array(x_section) - xloc_equip))\<close>.\<close>

definition crane_max_dist :: "coords \<Rightarrow> real \<Rightarrow> real" where
  "crane_max_dist section_coords xloc_equip =
     py_max (map (\<lambda>x. \<bar>x - xloc_equip\<bar>) (map fst section_coords))"

text \<open>\<^verbatim>\<open>Crane.install\<close> up to its slope fallback: the value of \<^verbatim>\<open>install\<close> there.\<close>

definition Crane_direct ::
  "Crane \<Rightarrow> string \<Rightarrow> real \<Rightarrow> coords \<Rightarrow> real \<Rightarrow> real \<Rightarrow> pyfloat \<Rightarrow> (real \<times> real) option
    \<Rightarrow> error + bool" where
  "Crane_direct self grading_layer ymax section_coords xmax_top mass length_top loc =
     (if section_coords = [] then Inl ValueError
      else
        let x_section = map fst section_coords;
            y_section = map snd section_coords;
            y_start = py_min y_section;
            y_end = py_max y_section
        in
        (case (case loc of
                 None \<Rightarrow>
                   location_equipment [Crane.offset self] xmax_top section_coords KCrane 0 0 ymax
               | Some (xl, yl) \<Rightarrow> Inr (xl, yl, False)) of
           Inl e \<Rightarrow> Inl e
         | Inr (xloc_equip, yloc_equip, flip) \<Rightarrow>
           let max_dist_x = crane_max_dist section_coords xloc_equip in
           (case crane_capacity (Crane.loading_chart self) max_dist_x mass of
              (M_max, r, l_boom) \<Rightarrow>
                let hmax = np_sqrt (l_boom ^ 2 - r ^ 2);
                    h = yloc_equip - y_end
                in Inr (grading_layer \<in> dom (design_type self) \<and>
                        ((y_start - waterlvl self) \<ge> Crane.h_dry self \<or>
                         ((ymax - waterlvl self) \<ge> Crane.h_dry self \<and>
                          float_le (Fin mass) M_max \<and> le_nan h hmax \<and>
                          float_le (Fin (Crane.required_length self)) length_top))))))"

text \<open>
  \<^verbatim>\<open>Crane.install(self, layer, grading_layer, ymax, section_coords, xmax_top, mass, slope,
  length_top, xloc_equip=None, yloc_equip=None, plot=False)\<close>.
\<close>

function Crane_install ::
  "Crane \<Rightarrow> string \<Rightarrow> string \<Rightarrow> real \<Rightarrow> coords \<Rightarrow> real \<Rightarrow> real \<Rightarrow> real \<times> real \<Rightarrow> pyfloat
    \<Rightarrow> (real \<times> real) option \<Rightarrow> error + bool" where
  "Crane_install self layer grading_layer ymax section_coords xmax_top mass slope length_top loc =
     (case Crane_direct self grading_layer ymax section_coords xmax_top mass length_top loc of
        Inl e \<Rightarrow> Inl e
      | Inr install \<Rightarrow>
          if ymax > waterlvl self + Crane.h_dry self \<and> \<not> install \<and> slope \<noteq> (0, 0) then
            (let dy = ymax - (waterlvl self + Crane.h_dry self);
                 V = fst slope;
                 H = snd slope
             in if V = 0 then Inl ZeroDivisionError
                else
                  let xmax_top' = xmax_top - H / V * dy in
                  Crane_install self layer grading_layer (waterlvl self + Crane.h_dry self)
                    section_coords xmax_top' mass slope (Fin (2 * \<bar>xmax_top'\<bar>)) None)
          else Inr install)"
  by pat_completeness auto
termination
  by (relation "measure (\<lambda>(self, layer, grading_layer, ymax, rest).
                   if ymax > waterlvl self + Crane.h_dry self then 1 else 0)") auto

declare Crane_install.simps [simp del]

section \<open>Barge\<close>

datatype instrument =
  ICrane Crane | IExcavator Excavator | ITruck Truck | IPlateFeeder PlateFeeder

definition instrument_design_type :: "instrument \<Rightarrow> design_type" where
  "instrument_design_type i =
     (case i of
        ICrane c \<Rightarrow> design_type c
      | IExcavator e \<Rightarrow> design_type e
      | ITruck t \<Rightarrow> design_type t
      | IPlateFeeder p \<Rightarrow> design_type p)"

text \<open>The mounted instrument is the attribute \<^verbatim>\<open>self.instance\<close>: a reference to \<^verbatim>\<open>other\<close>.\<close>

record Barge = Equipment +
  the_instance :: instrument
  installation_waterdepth :: real
  height :: real
  margin_x :: real
  ukc :: real


text \<open>
  The barge calls \<^verbatim>\<open>self.instance.install(layer=.., grading_layer=.., ymax=..,
  section_coords=.., level=..)\<close> on a Truck or a PlateFeeder. Python binds the keywords to the
  parameters of the method that is called: a keyword that names no parameter, and a parameter
  without default that gets no argument, raise TypeError. \<open>kw\<close> holds the numeric keywords of
  the call.
\<close>

definition Truck_install_kw ::
  "Truck \<Rightarrow> string \<Rightarrow> string \<Rightarrow> coords \<Rightarrow> (string \<rightharpoonup> real) \<Rightarrow> error + (bool \<times> Truck)" where
  "Truck_install_kw self layer grading_layer section_coords kw =
     (if \<not> dom kw \<subseteq> {''ymax'', ''length_top''} then Inl TypeError
      else
        (case kw ''ymax'' of
           None \<Rightarrow> Inl TypeError
         | Some ymax \<Rightarrow>
           (case kw ''length_top'' of
              None \<Rightarrow> Inl TypeError
            | Some length_top \<Rightarrow>
                Truck_install self layer grading_layer ymax section_coords length_top)))"

definition PlateFeeder_install_kw ::
  "PlateFeeder \<Rightarrow> string \<Rightarrow> string \<Rightarrow> coords \<Rightarrow> (string \<rightharpoonup> real) \<Rightarrow> error + bool" where
  "PlateFeeder_install_kw self layer grading_layer section_coords kw =
     (if \<not> dom kw \<subseteq> {''ymax'', ''level''} then Inl TypeError
      else
        (case kw ''ymax'' of
           None \<Rightarrow> Inl TypeError
         | Some ymax \<Rightarrow>
             PlateFeeder_install self layer grading_layer ymax section_coords (kw ''level'')))"

text \<open>
  \<^verbatim>\<open>Barge.install\<close>, the statement \<^verbatim>\<open>if y_end >= y_installation_waterdepth - self.ukc:\<close>
  with its two branches for a Crane and an Excavator. The result is the value of
  \<^verbatim>\<open>install\<close> after it and the mounted instrument as it is then.
\<close>

definition Barge_clearance ::
  "(coords \<Rightarrow> coords \<Rightarrow> bool) \<Rightarrow> Barge \<Rightarrow> string \<Rightarrow> string \<Rightarrow> real \<times> real \<Rightarrow> coords \<Rightarrow> real \<Rightarrow> real
    \<Rightarrow> error + (bool \<times> instrument)" where
  "Barge_clearance shapely_ok self layer grading_layer slope section_coords xmax_top mass =
     (let xtop = fst (py_max_tuple section_coords);
          y_end = py_max (map snd section_coords);
          V = fst slope;
          H = snd slope;
          y_installation_waterdepth = waterlvl self - Barge.installation_waterdepth self
      in
      if y_end \<ge> y_installation_waterdepth - Barge.ukc self then
        (case the_instance self of
           ICrane c \<Rightarrow>
             if V = 0 then Inl ZeroDivisionError
             else
               (case location_equipment
                       [(y_end - y_installation_waterdepth) * H / V, margin_x self, Crane.offset c]
                       xtop section_coords KBarge y_installation_waterdepth (height self) 0 of
                  Inl e \<Rightarrow> Inl e
                | Inr (xequip, yequip, flip) \<Rightarrow>
                  let c' = c\<lparr>waterlvl := waterlvl self, Crane.h_dry := 0\<rparr> in
                  (case Crane_install c' layer grading_layer (waterlvl self + height self)
                          section_coords xmax_top mass (0, 0) PosInf (Some (xequip, yequip)) of
                     Inl e \<Rightarrow> Inl e
                   | Inr install \<Rightarrow> Inr (install, ICrane c')))
         | IExcavator ex \<Rightarrow>
             if V = 0 then Inl ZeroDivisionError
             else
               (case location_equipment
                       [(y_end - y_installation_waterdepth) * H / V, margin_x self,
                        Excavator.offset ex]
                       xtop section_coords KBarge y_installation_waterdepth (height self) 0 of
                  Inl e \<Rightarrow> Inl e
                | Inr (xequip, yequip, flip) \<Rightarrow>
                  let ex' = ex\<lparr>waterlvl := waterlvl self, Excavator.h_dry := 0\<rparr> in
                  (case Excavator_install shapely_ok ex' layer grading_layer
                          (waterlvl self + height self) section_coords xmax_top mass PosInf (0, 0)
                          (Some (xequip, yequip)) of
                     Inl e \<Rightarrow> Inl e
                   | Inr install \<Rightarrow> Inr (install, IExcavator ex')))
         | other \<Rightarrow> Inr (False, other))
      else Inr (False, the_instance self))"

text \<open>
  \<^verbatim>\<open>Barge.install(self, layer, grading_layer, slope, section_coords, xmax_top, mass,
  plot=False)\<close>. In the source the statement
  \<^verbatim>\<open>if isinstance(self.instance, PlateFeeder) or isinstance(self.instance, Truck): .. else: ..\<close>
  follows the clearance statement at the same indentation, inside the grading test: its
  \<^verbatim>\<open>else\<close> belongs to it, and runs for every Crane and Excavator. The barge is returned with
  its instrument as the call leaves it.
\<close>

definition Barge_install ::
  "(coords \<Rightarrow> coords \<Rightarrow> bool) \<Rightarrow> Barge \<Rightarrow> string \<Rightarrow> string \<Rightarrow> real \<times> real \<Rightarrow> coords \<Rightarrow> real \<Rightarrow> real
    \<Rightarrow> error + (bool \<times> Barge)" where
  "Barge_install shapely_ok self layer grading_layer slope section_coords xmax_top mass =
     (if section_coords = [] then Inl ValueError
      else
        let x_section = map fst section_coords;
            y_installation_waterdepth = waterlvl self - Barge.installation_waterdepth self
        in
        if grading_layer \<in> dom (instrument_design_type (the_instance self)) then
          (case Barge_clearance shapely_ok self layer grading_layer slope section_coords
                  xmax_top mass of
             Inl e \<Rightarrow> Inl e
           | Inr (install, inst) \<Rightarrow>
             (case inst of
                IPlateFeeder p \<Rightarrow>
                  (case PlateFeeder_install_kw p layer grading_layer section_coords
                          [''ymax'' \<mapsto> waterlvl self + height self,
                           ''level'' \<mapsto> waterlvl self + height self] of
                     Inl e \<Rightarrow> Inl e
                   | Inr install' \<Rightarrow> Inr (install', self\<lparr>the_instance := IPlateFeeder p\<rparr>))
              | ITruck t \<Rightarrow>
                  (case Truck_install_kw t layer grading_layer section_coords
                          [''ymax'' \<mapsto> waterlvl self + height self,
                           ''level'' \<mapsto> waterlvl self + height self] of
                     Inl e \<Rightarrow> Inl e
                   | Inr (install', t') \<Rightarrow> Inr (install', self\<lparr>the_instance := ITruck t'\<rparr>))
              | ICrane c \<Rightarrow>
                  (case Crane_install c layer grading_layer (waterlvl self + height self)
                          section_coords xmax_top mass (0, 0) PosInf
                          (Some ((py_min x_section + py_max x_section) / 2,
                                 y_installation_waterdepth + height self)) of
                     Inl e \<Rightarrow> Inl e
                   | Inr ignored \<Rightarrow> Inr (True, self\<lparr>the_instance := ICrane c\<rparr>))
              | IExcavator ex \<Rightarrow>
                  let ex' = ex\<lparr>waterlvl := waterlvl self, Excavator.h_dry := 0\<rparr> in
                  (case Excavator_install shapely_ok ex' layer grading_layer
                          (waterlvl self + height self) section_coords xmax_top mass PosInf (0, 0)
                          (Some (py_max x_section, y_installation_waterdepth + height self)) of
                     Inl e \<Rightarrow> Inl e
                   | Inr install' \<Rightarrow> Inr (install', self\<lparr>the_instance := IExcavator ex'\<rparr>))))
        else Inr (False, self))"

section \<open>Well-formed charts and the rows a section needs\<close>



text \<open>The elevation the equipment stands at: \<^verbatim>\<open>ymax\<close>, or the given \<^verbatim>\<open>yloc_equip\<close>.\<close>

definition install_yloc :: "(real \<times> real) option \<Rightarrow> real \<Rightarrow> real" where
  "install_yloc loc ymax = (case loc of None \<Rightarrow> ymax | Some (xl, yl) \<Rightarrow> yl)"


text \<open>What \<^verbatim>\<open>Excavator.install\<close> returns when it does not take the slope fallback.\<close>

definition excavator_result :: "error + bool option \<Rightarrow> error + bool" where
  "excavator_result r =
     (case r of Inl e \<Rightarrow> Inl e | Inr None \<Rightarrow> Inr False | Inr (Some b) \<Rightarrow> Inr b)"

section \<open>Concrete inputs\<close>

text \<open>The section of the specification's scenarios: a rectangle on the right-hand side.\<close>

definition rectangle :: coords where
  "rectangle = [(0, 0), (4, 0), (4, 2), (0, 2)]"

definition no_cost :: "string \<rightharpoonup> real" where
  "no_cost = [''cost'' \<mapsto> 0, ''CO2'' \<mapsto> 0]"

text \<open>An equipment whose grading has a price and no production rate.\<close>

definition priced_equipment :: Equipment where
  "priced_equipment =
     \<lparr>name = ''loader'',
      design_type = [''HMA_300/1000'' \<mapsto> [''cost'' \<mapsto> 10, ''CO2'' \<mapsto> 2]],
      mobilisation_cost = no_cost, equipment_cost = no_cost, waterlvl = 0\<rparr>"

definition feeder :: PlateFeeder where
  "feeder =
     \<lparr>name = ''feeder'',
      design_type = [''HMA_300/1000'' \<mapsto> [''cost'' \<mapsto> 10, ''CO2'' \<mapsto> 2, ''production_rate'' \<mapsto> 5]],
      mobilisation_cost = no_cost, equipment_cost = no_cost, waterlvl = 0,
      PlateFeeder.h_dry = 1, top_installation = 3\<rparr>"

text \<open>A geometry library that builds a polygon from any ring of at least three points.\<close>

definition shapely_accepts :: "coords \<Rightarrow> coords \<Rightarrow> bool" where
  "shapely_accepts ring section_ring = (length ring \<ge> 3 \<and> length section_ring \<ge> 3)"

definition graded :: design_type where
  "graded =
     [''HMA_300/1000'' \<mapsto> [''cost'' \<mapsto> 10, ''CO2'' \<mapsto> 2, ''production_rate'' \<mapsto> 5]]"

text \<open>
  An excavator at water level 1 with three chart rows, and a crane with radii 3 and 6 and
  boom lengths 5 and 10.
\<close>

definition digger :: Excavator where
  "digger =
     \<lparr>name = ''digger'', design_type = graded,
      mobilisation_cost = no_cost, equipment_cost = no_cost, waterlvl = 1,
      Excavator.loading_chart =
        [(2, \<lparr>row_x = [2, 6], row_w = [10, 8]\<rparr>),
         (0, \<lparr>row_x = [2, 6], row_w = [10, 8]\<rparr>),
         (-2, \<lparr>row_x = [2, 6], row_w = [10, 8]\<rparr>)],
      Excavator.h_dry = 0, Excavator.offset = 1, Excavator.required_length = 4\<rparr>"

definition hoist :: Crane where
  "hoist =
     \<lparr>name = ''hoist'', design_type = graded,
      mobilisation_cost = no_cost, equipment_cost = no_cost, waterlvl = 1,
      Crane.loading_chart = [(3, [(5, 12), (10, 8)]), (6, [(10, 6)])],
      Crane.h_dry = 1, Crane.offset = 1, Crane.required_length = 0\<rparr>"

text \<open>A section whose lowest point is at elevation 1 and whose top is at 6.\<close>

definition crest :: coords where
  "crest = [(0, 1), (4, 1), (4, 6), (0, 6)]"

text \<open>
  A truck, a vessel and two barges: \<open>pontoon\<close> carries the crane \<open>hoist\<close>, \<open>ferry\<close>
  carries the truck \<open>lorry\<close> on a deck at elevation 5. \<open>barge_graded\<close> is the
  \<^verbatim>\<open>design_type\<close> that \<^verbatim>\<open>Barge.__init__\<close> builds from \<open>graded\<close> with
  \<^verbatim>\<open>extra_cost = 1\<close> and \<^verbatim>\<open>downtime_production = 1\<close>.
\<close>

definition lorry :: Truck where
  "lorry =
     \<lparr>name = ''lorry'', design_type = graded,
      mobilisation_cost = no_cost, equipment_cost = no_cost, waterlvl = 0,
      Truck.h_dry = 1, Truck.required_length = 3, level = None\<rparr>"


definition barge_graded :: design_type where
  "barge_graded =
     [''HMA_300/1000'' \<mapsto> [''cost'' \<mapsto> 11, ''CO2'' \<mapsto> 2, ''production_rate'' \<mapsto> 4]]"

definition pontoon :: Barge where
  "pontoon =
     \<lparr>name = ''pontoon'', design_type = barge_graded,
      mobilisation_cost = no_cost, equipment_cost = no_cost, waterlvl = 0,
      the_instance = ICrane hoist,
      Barge.installation_waterdepth = 2, height = 1, margin_x = 2, Barge.ukc = 0\<rparr>"

definition ferry :: Barge where
  "ferry =
     \<lparr>name = ''ferry'', design_type = barge_graded,
      mobilisation_cost = no_cost, equipment_cost = no_cost, waterlvl = 3,
      the_instance = ITruck lorry,
      Barge.installation_waterdepth = 2, height = 2, margin_x = 2, Barge.ukc = 0\<rparr>"

text \<open>The crane \<open>hoist\<close> with the water level of \<open>pontoon\<close> and the dry margin 0.\<close>

definition hoist_afloat :: Crane where
  "hoist_afloat = hoist\<lparr>waterlvl := 0, Crane.h_dry := 0\<rparr>"

text \<open>A section under water, its top at elevation -1, and one whose top is at 4.\<close>

definition toe :: coords where
  "toe = [(0, -3), (4, -3), (4, -1), (0, -1)]"

definition bench :: coords where
  "bench = [(0, 2), (4, 2), (4, 4), (0, 4)]"

section \<open>Properties\<close>

subsection \<open>Placement location\<close>

text \<open>
  C5, as the source has it. For a section with every x-coordinate non-negative a land-based
  equipment gets the mirror flag False (and True as soon as one x-coordinate is negative); for
  a Barge the flag is the opposite one, True exactly when every x-coordinate is non-negative.
  The vertical location is \<^verbatim>\<open>ymax\<close> on land and
  \<^verbatim>\<open>y_installation_waterdepth + height\<close> for a Barge.
\<close>

theorem location_equipment_side:
  assumes "section_coords \<noteq> []"
  shows "location_equipment args xpoint section_coords equip y_iw hgt ymax =
           Inr (if list_all (\<lambda>p. fst p \<ge> 0) section_coords
                then (if equip = KBarge then xpoint + sum_list args else xpoint - sum_list args)
                else (if equip = KBarge then - xpoint - sum_list args
                      else - xpoint + sum_list args),
                if equip = KBarge then y_iw + hgt else ymax,
                (equip = KBarge) = list_all (\<lambda>p. fst p \<ge> 0) section_coords)"
  using assms by (auto simp: location_equipment_def Let_def list_all_iff)

theorem location_equipment_side_witness:
  "location_equipment [3] 5 rectangle KBarge (-2) 1 0 = Inr (8, -1, True)"
  using location_equipment_side
          [where section_coords = rectangle and args = "[3]" and xpoint = 5 and equip = KBarge
             and y_iw = "-2" and hgt = 1 and ymax = 0]
  by (simp add: rectangle_def)

text \<open>
  C5 as the specification words it fails: an Excavator on land, the rectangle at
  non-negative x, is located without mirroring.
\<close>

theorem location_equipment_land_counterexample:
  "location_equipment [3] 5 rectangle KExcavator 0 0 2 = Inr (2, 2, False)"
  by (simp add: location_equipment_def rectangle_def)

subsection \<open>Production rate\<close>

text \<open>
  C7. For a grading of \<^verbatim>\<open>design_type\<close> without a production rate the method stores the
  rate 1 and then raises \<^verbatim>\<open>UserWarning\<close>: the call returns no rate. Only a second call on the
  same equipment returns 1.
\<close>

theorem get_production_rate_missing:
  assumes "design_type self grading_layer = Some d" and "d ''production_rate'' = None"
  shows "fst (get_production_rate self layer grading_layer) = Inl UserWarning \<and>
         design_type (snd (get_production_rate self layer grading_layer)) grading_layer =
           Some (d(''production_rate'' \<mapsto> 1)) \<and>
         fst (get_production_rate (snd (get_production_rate self layer grading_layer))
                layer grading_layer) = Inr 1"
  using assms by (simp add: get_production_rate_def)

theorem get_production_rate_missing_witness:
  "fst (get_production_rate priced_equipment ''core'' ''HMA_300/1000'') = Inl UserWarning \<and>
   fst (get_production_rate (snd (get_production_rate priced_equipment ''core'' ''HMA_300/1000''))
          ''core'' ''HMA_300/1000'') = Inr 1"
  using get_production_rate_missing
          [where self = priced_equipment and grading_layer = "''HMA_300/1000''"
             and d = "[''cost'' \<mapsto> 10, ''CO2'' \<mapsto> 2]" and layer = "''core''"]
  by (simp add: priced_equipment_def)

subsection \<open>PlateFeeder\<close>

text \<open>
  C10. With an explicit \<^verbatim>\<open>level\<close> the decision of \<^verbatim>\<open>PlateFeeder.install\<close> is the same for
  any two values of \<^verbatim>\<open>ymax\<close> and of the attribute \<^verbatim>\<open>waterlvl\<close>: it is the grading test, the
  dry margin at \<^verbatim>\<open>level\<close> and the top of the section against \<^verbatim>\<open>level + top_installation\<close>.
\<close>

theorem PlateFeeder_install_level_independent:
  "PlateFeeder_install (self\<lparr>waterlvl := w1\<rparr>) layer grading_layer ymax1 section_coords (Some l) =
   PlateFeeder_install (self\<lparr>waterlvl := w2\<rparr>) layer grading_layer ymax2 section_coords (Some l) \<and>
   PlateFeeder_install (self\<lparr>waterlvl := w1\<rparr>) layer grading_layer ymax1 section_coords (Some l) =
     (if section_coords = [] then Inl ValueError
      else Inr (grading_layer \<in> dom (design_type self) \<and> l \<ge> PlateFeeder.h_dry self \<and>
                py_max (map snd section_coords) \<le> l + top_installation self))"
  by (simp add: PlateFeeder_install_def Let_def)

theorem PlateFeeder_install_level_independent_witness:
  "PlateFeeder_install (feeder\<lparr>waterlvl := 0\<rparr>) ''core'' ''HMA_300/1000'' 7 rectangle (Some 1) =
   PlateFeeder_install (feeder\<lparr>waterlvl := 9\<rparr>) ''core'' ''HMA_300/1000'' (-4) rectangle (Some 1) \<and>
   PlateFeeder_install (feeder\<lparr>waterlvl := 0\<rparr>) ''core'' ''HMA_300/1000'' 7 rectangle (Some 1) =
     Inr True"
  using PlateFeeder_install_level_independent
          [where self = feeder and ?w1.0 = 0 and ?w2.0 = 9 and layer = "''core''"
             and grading_layer = "''HMA_300/1000''" and ?ymax1.0 = 7 and ?ymax2.0 = "-4"
             and section_coords = rectangle and l = 1]
  by (auto simp add: feeder_def rectangle_def py_max_def)

subsection \<open>Auxiliary facts: builtins and the excavator's chart\<close>








lemma location_equipment_land:
  "section_coords \<noteq> [] \<Longrightarrow> equip \<noteq> KBarge \<Longrightarrow>
   \<exists>xl flip. location_equipment args xpoint section_coords equip a b ymax = Inr (xl, ymax, flip)"
  by (auto simp add: location_equipment_def Let_def)

lemma install_location:
  assumes "section_coords \<noteq> []" and "equip \<noteq> KBarge"
  shows "\<exists>xl flip.
           (case loc of
              None \<Rightarrow> location_equipment args xpoint section_coords equip a b ymax
            | Some (xl, yl) \<Rightarrow> Inr (xl, yl, False)) = Inr (xl, install_yloc loc ymax, flip)"
proof (cases loc)
  case None
  with location_equipment_land [OF assms] show ?thesis
    by (simp add: install_yloc_def)
next
  case (Some p)
  then show ?thesis by (cases p) (auto simp add: install_yloc_def)
qed



subsection \<open>Auxiliary facts: the slope fallback\<close>

lemma Excavator_install_unfold:
  "Excavator_install shapely_ok self layer grading_layer ymax section_coords xmax_top mass
       length_top slope loc =
     (case Excavator_direct shapely_ok self grading_layer ymax section_coords xmax_top mass
             length_top loc of
        Inl e \<Rightarrow> Inl e
      | Inr None \<Rightarrow> Inr False
      | Inr (Some install) \<Rightarrow>
          if ymax > waterlvl self + Excavator.h_dry self \<and> \<not> install \<and> slope \<noteq> (0, 0) then
            (if fst slope = 0 then Inl ZeroDivisionError
             else
               Excavator_install shapely_ok self layer grading_layer
                 (waterlvl self + Excavator.h_dry self) section_coords
                 (xmax_top - snd slope / fst slope * (ymax - (waterlvl self + Excavator.h_dry self)))
                 mass
                 (Fin (2 * \<bar>xmax_top - snd slope / fst slope *
                               (ymax - (waterlvl self + Excavator.h_dry self))\<bar>))
                 slope None)
          else Inr install)"
  by (subst Excavator_install.simps) (simp only: Let_def)

lemma Excavator_install_base:
  assumes "ymax \<le> waterlvl self + Excavator.h_dry self \<or> slope = (0, 0)"
  shows "Excavator_install shapely_ok self layer grading_layer ymax section_coords xmax_top mass
           length_top slope loc =
         excavator_result (Excavator_direct shapely_ok self grading_layer ymax section_coords
           xmax_top mass length_top loc)"
  using assms
  by (subst Excavator_install_unfold)
     (auto simp: excavator_result_def split: sum.splits option.splits)

lemma Excavator_install_step:
  assumes "waterlvl self + Excavator.h_dry self < ymax"
  shows "Excavator_install shapely_ok self layer grading_layer ymax section_coords xmax_top mass
           length_top slope loc =
         (case Excavator_direct shapely_ok self grading_layer ymax section_coords xmax_top mass
                 length_top loc of
            Inl e \<Rightarrow> Inl e
          | Inr None \<Rightarrow> Inr False
          | Inr (Some install) \<Rightarrow>
              if \<not> install \<and> slope \<noteq> (0, 0) then
                (if fst slope = 0 then Inl ZeroDivisionError
                 else
                   excavator_result
                     (Excavator_direct shapely_ok self grading_layer
                        (waterlvl self + Excavator.h_dry self) section_coords
                        (xmax_top - snd slope / fst slope *
                           (ymax - (waterlvl self + Excavator.h_dry self)))
                        mass
                        (Fin (2 * \<bar>xmax_top - snd slope / fst slope *
                                      (ymax - (waterlvl self + Excavator.h_dry self))\<bar>))
                        None))
              else Inr install)"
proof -
  have base:
    "Excavator_install shapely_ok self layer grading_layer
       (waterlvl self + Excavator.h_dry self) section_coords xt mass lt slope None =
     excavator_result
       (Excavator_direct shapely_ok self grading_layer (waterlvl self + Excavator.h_dry self)
          section_coords xt mass lt None)" for xt lt
    by (rule Excavator_install_base) simp
  show ?thesis
    using assms
    by (subst Excavator_install_unfold)
       (auto simp: base excavator_result_def split: sum.splits option.splits)
qed

lemma Crane_install_unfold:
  "Crane_install self layer grading_layer ymax section_coords xmax_top mass slope length_top loc =
     (case Crane_direct self grading_layer ymax section_coords xmax_top mass length_top loc of
        Inl e \<Rightarrow> Inl e
      | Inr install \<Rightarrow>
          if ymax > waterlvl self + Crane.h_dry self \<and> \<not> install \<and> slope \<noteq> (0, 0) then
            (if fst slope = 0 then Inl ZeroDivisionError
             else
               Crane_install self layer grading_layer (waterlvl self + Crane.h_dry self)
                 section_coords
                 (xmax_top - snd slope / fst slope * (ymax - (waterlvl self + Crane.h_dry self)))
                 mass slope
                 (Fin (2 * \<bar>xmax_top - snd slope / fst slope *
                               (ymax - (waterlvl self + Crane.h_dry self))\<bar>))
                 None)
          else Inr install)"
  by (subst Crane_install.simps) (simp only: Let_def)

lemma Crane_install_base:
  assumes "ymax \<le> waterlvl self + Crane.h_dry self \<or> slope = (0, 0)"
  shows "Crane_install self layer grading_layer ymax section_coords xmax_top mass slope
           length_top loc =
         Crane_direct self grading_layer ymax section_coords xmax_top mass length_top loc"
  using assms
  by (subst Crane_install_unfold) (auto split: sum.splits)

lemma Crane_install_step:
  assumes "waterlvl self + Crane.h_dry self < ymax"
  shows "Crane_install self layer grading_layer ymax section_coords xmax_top mass slope
           length_top loc =
         (case Crane_direct self grading_layer ymax section_coords xmax_top mass length_top loc of
            Inl e \<Rightarrow> Inl e
          | Inr install \<Rightarrow>
              if \<not> install \<and> slope \<noteq> (0, 0) then
                (if fst slope = 0 then Inl ZeroDivisionError
                 else
                   Crane_direct self grading_layer (waterlvl self + Crane.h_dry self)
                     section_coords
                     (xmax_top - snd slope / fst slope *
                        (ymax - (waterlvl self + Crane.h_dry self)))
                     mass
                     (Fin (2 * \<bar>xmax_top - snd slope / fst slope *
                                   (ymax - (waterlvl self + Crane.h_dry self))\<bar>))
                     None)
              else Inr install)"
proof -
  have base:
    "Crane_install self layer grading_layer (waterlvl self + Crane.h_dry self) section_coords
       xt mass slope lt None =
     Crane_direct self grading_layer (waterlvl self + Crane.h_dry self) section_coords xt mass
       lt None" for xt lt
    by (rule Crane_install_base) simp
  show ?thesis
    using assms
    by (subst Crane_install_unfold) (auto simp: base split: sum.splits)
qed

lemma Crane_direct_total:
  assumes "section_coords \<noteq> []"
  shows "\<exists>b. Crane_direct self grading_layer ymax section_coords xmax_top mass length_top loc
           = Inr b"
proof -
  from install_location
         [OF assms, where equip = KCrane and loc = loc and args = "[Crane.offset self]"
            and xpoint = xmax_top and a = 0 and b = 0 and ymax = ymax]
  obtain xl flip where
    "(case loc of
        None \<Rightarrow> location_equipment [Crane.offset self] xmax_top section_coords KCrane 0 0 ymax
      | Some (xl, yl) \<Rightarrow> Inr (xl, yl, False)) = Inr (xl, install_yloc loc ymax, flip)"
    by auto
  with assms show ?thesis
    by (simp add: Crane_direct_def Let_def split: prod.splits)
qed

lemma Crane_install_total:
  assumes "section_coords \<noteq> []" and "fst slope \<noteq> 0 \<or> slope = (0, 0)"
  shows "\<exists>b. Crane_install self layer grading_layer ymax section_coords xmax_top mass slope
           length_top loc = Inr b"
proof (cases "waterlvl self + Crane.h_dry self < ymax")
  case True
  from Crane_direct_total [OF assms(1)] obtain b where
    b: "Crane_direct self grading_layer ymax section_coords xmax_top mass length_top loc = Inr b"
    by blast
  from Crane_direct_total [OF assms(1)] obtain b' where
    "Crane_direct self grading_layer (waterlvl self + Crane.h_dry self) section_coords
       (xmax_top - snd slope / fst slope * (ymax - (waterlvl self + Crane.h_dry self)))
       mass
       (Fin (2 * \<bar>xmax_top - snd slope / fst slope *
                     (ymax - (waterlvl self + Crane.h_dry self))\<bar>))
       None = Inr b'"
    by blast
  with b assms(2) show ?thesis
    by (subst Crane_install_step [OF True]) auto
next
  case False
  then have "ymax \<le> waterlvl self + Crane.h_dry self \<or> slope = (0, 0)" by simp
  from Crane_install_base [OF this] Crane_direct_total [OF assms(1)] show ?thesis
    by simp
qed


text \<open>
  When no payload at the selected radius reaches the mass, the direct test of the crane is
  the grading test together with the dry low point.
\<close>

lemma Crane_direct_sentinel:
  assumes "section_coords \<noteq> []"
    and le: "(case loc of
             None \<Rightarrow> location_equipment [Crane.offset cr] xmax_top section_coords KCrane 0 0 ymax
           | Some (xl, yl) \<Rightarrow> Inr (xl, yl, False)) = Inr (xloc_equip, yloc_equip, flip)"
    and cap: "fst (crane_capacity (Crane.loading_chart cr)
                 (crane_max_dist section_coords xloc_equip) mass) = NegInf"
  shows "Crane_direct cr grading_layer ymax section_coords xmax_top mass length_top loc =
       Inr (grading_layer \<in> dom (design_type cr) \<and>
            py_min (map snd section_coords) - waterlvl cr \<ge> Crane.h_dry cr)"
proof -
  obtain M r l where cc: "crane_capacity (Crane.loading_chart cr)
      (crane_max_dist section_coords xloc_equip) mass = (M, r, l)"
    by (cases "crane_capacity (Crane.loading_chart cr)
                 (crane_max_dist section_coords xloc_equip) mass")
  with cap have M: "M = NegInf" by simp
  have "Crane_direct cr grading_layer ymax section_coords xmax_top mass length_top loc =
    (let y_section = map snd section_coords;
         y_start = py_min y_section;
         y_end = py_max y_section
     in
       let hmax = np_sqrt (l ^ 2 - r ^ 2);
           h = yloc_equip - y_end
       in Inr (grading_layer \<in> dom (design_type cr) \<and>
               ((y_start - waterlvl cr) \<ge> Crane.h_dry cr \<or>
                ((ymax - waterlvl cr) \<ge> Crane.h_dry cr \<and>
                 float_le (Fin mass) M \<and> le_nan h hmax \<and>
                 float_le (Fin (Crane.required_length cr)) length_top))))"
    unfolding Crane_direct_def le using assms(1)
    by (simp only: Let_def cc if_False prod.case sum.case)
  then show ?thesis
    by (simp add: M Let_def)
qed

subsection \<open>Auxiliary facts: the concrete inputs\<close>

lemmas excavator_eval = Excavator_direct_def location_equipment_def chart_location_def
  rotate_loading_chart_def sorted_by_y_def sorted_by_y_reverse_def np_unique_def
  reach_at_def py_min_def py_max_def shapely_accepts_def digger_def graded_def no_cost_def
  rectangle_def crest_def Let_def


lemma digger_fields:
  "waterlvl digger = 1" "Excavator.h_dry digger = 0" "Excavator.offset digger = 1"
  "Excavator.required_length digger = 4" "''HMA_300/1000'' \<in> dom (design_type digger)"
  by (simp_all add: digger_def graded_def)

lemma digger_threshold: "waterlvl digger + Excavator.h_dry digger = 1"
  by (simp add: digger_fields)




lemma digger_rectangle_top:
  "Excavator_direct shapely_accepts digger ''HMA_300/1000'' 2 rectangle 5 9 (Fin 1) None =
     Inr (Some False)"
  by (simp add: excavator_eval)

lemma digger_rectangle_margin:
  "Excavator_direct shapely_accepts digger ''HMA_300/1000'' 1 rectangle 3 9 (Fin 6) None =
     Inr (Some True)"
  by (simp add: excavator_eval)

lemma rectangle_facts:
  "rectangle \<noteq> []" "py_min (map snd rectangle) = 0" "py_max (map snd rectangle) = 2"
  "list_all (\<lambda>x. 0 \<le> x) (map fst rectangle)"
  by (simp_all add: rectangle_def py_min_def py_max_def)

lemma hoist_fields:
  "waterlvl hoist = 1" "Crane.h_dry hoist = 1" "Crane.offset hoist = 1"
  "Crane.required_length hoist = 0" "''HMA_300/1000'' \<in> dom (design_type hoist)"
  by (simp_all add: hoist_def graded_def)

lemma hoist_threshold: "waterlvl hoist + Crane.h_dry hoist = 2"
  by (simp add: hoist_fields)

lemma hoist_capacity:
  "crane_capacity (Crane.loading_chart hoist) (crane_max_dist rectangle 6) 10 = (NegInf, 0, 0)"
  "crane_capacity (Crane.loading_chart hoist) (crane_max_dist rectangle 3) 10 = (Fin 12, 3, 5)"
  by (simp_all add: crane_max_dist_def crane_capacity_def crane_cells_def py_max_tuple_def
        tuple_less_def py_min_def py_max_def hoist_def rectangle_def Let_def)

lemma sqrt_boom: "np_sqrt 16 = Some 4" "np_sqrt 0 = Some 0"
  by (simp_all add: np_sqrt_def)

lemma hoist_rectangle_top:
  "Crane_direct hoist ''HMA_300/1000'' 4 rectangle 7 10 (Fin 8) None = Inr False"
  by (simp add: Crane_direct_def location_equipment_def Let_def rectangle_facts hoist_fields
        hoist_capacity sqrt_boom le_nan_def)

lemma hoist_rectangle_margin:
  "Crane_direct hoist ''HMA_300/1000'' 2 rectangle 4 10 (Fin 8) None = Inr True"
  by (simp add: Crane_direct_def location_equipment_def Let_def rectangle_facts hoist_fields
        hoist_capacity sqrt_boom le_nan_def)

subsection \<open>Excavator: the dry low point\<close>




subsection \<open>The slope fallback ends\<close>

text \<open>
  C4. \<^verbatim>\<open>Excavator.install\<close> and \<^verbatim>\<open>Crane.install\<close> are total functions of the model: the
  recursion is accepted with the measure that is 1 above \<^verbatim>\<open>waterlvl + h_dry\<close> and 0 at or
  below it. A call with \<^verbatim>\<open>ymax\<close> at or below \<^verbatim>\<open>waterlvl + h_dry\<close> takes no fallback branch,
  whatever the slope; a call above it makes at most one recursive call, at the strictly lower
  elevation \<^verbatim>\<open>waterlvl + h_dry\<close>, and that call takes none.
\<close>

theorem slope_fallback_terminates:
  "(ymax \<le> waterlvl ex + Excavator.h_dry ex \<longrightarrow>
      Excavator_install shapely_ok ex layer grading_layer ymax section_coords xmax_top mass
        length_top slope loc =
      excavator_result (Excavator_direct shapely_ok ex grading_layer ymax section_coords
        xmax_top mass length_top loc)) \<and>
   (waterlvl ex + Excavator.h_dry ex < ymax \<longrightarrow>
      Excavator_install shapely_ok ex layer grading_layer ymax section_coords xmax_top mass
        length_top slope loc =
      (case Excavator_direct shapely_ok ex grading_layer ymax section_coords xmax_top mass
              length_top loc of
         Inl e \<Rightarrow> Inl e
       | Inr None \<Rightarrow> Inr False
       | Inr (Some install) \<Rightarrow>
           if \<not> install \<and> slope \<noteq> (0, 0) then
             (if fst slope = 0 then Inl ZeroDivisionError
              else
                excavator_result
                  (Excavator_direct shapely_ok ex grading_layer
                     (waterlvl ex + Excavator.h_dry ex) section_coords
                     (xmax_top - snd slope / fst slope *
                        (ymax - (waterlvl ex + Excavator.h_dry ex)))
                     mass
                     (Fin (2 * \<bar>xmax_top - snd slope / fst slope *
                                   (ymax - (waterlvl ex + Excavator.h_dry ex))\<bar>))
                     None))
           else Inr install)) \<and>
   (ymax \<le> waterlvl cr + Crane.h_dry cr \<longrightarrow>
      Crane_install cr layer grading_layer ymax section_coords xmax_top mass slope
        length_top loc =
      Crane_direct cr grading_layer ymax section_coords xmax_top mass length_top loc) \<and>
   (waterlvl cr + Crane.h_dry cr < ymax \<longrightarrow>
      Crane_install cr layer grading_layer ymax section_coords xmax_top mass slope
        length_top loc =
      (case Crane_direct cr grading_layer ymax section_coords xmax_top mass length_top loc of
         Inl e \<Rightarrow> Inl e
       | Inr install \<Rightarrow>
           if \<not> install \<and> slope \<noteq> (0, 0) then
             (if fst slope = 0 then Inl ZeroDivisionError
              else
                Crane_direct cr grading_layer (waterlvl cr + Crane.h_dry cr) section_coords
                  (xmax_top - snd slope / fst slope * (ymax - (waterlvl cr + Crane.h_dry cr)))
                  mass
                  (Fin (2 * \<bar>xmax_top - snd slope / fst slope *
                                (ymax - (waterlvl cr + Crane.h_dry cr))\<bar>))
                  None)
           else Inr install))"
proof (intro conjI impI)
  assume "ymax \<le> waterlvl ex + Excavator.h_dry ex"
  then have "ymax \<le> waterlvl ex + Excavator.h_dry ex \<or> slope = (0, 0)" by simp
  then show "Excavator_install shapely_ok ex layer grading_layer ymax section_coords xmax_top mass
        length_top slope loc =
      excavator_result (Excavator_direct shapely_ok ex grading_layer ymax section_coords
        xmax_top mass length_top loc)"
    by (rule Excavator_install_base)
next
  assume "waterlvl ex + Excavator.h_dry ex < ymax"
  then show "Excavator_install shapely_ok ex layer grading_layer ymax section_coords xmax_top mass
        length_top slope loc =
      (case Excavator_direct shapely_ok ex grading_layer ymax section_coords xmax_top mass
              length_top loc of
         Inl e \<Rightarrow> Inl e
       | Inr None \<Rightarrow> Inr False
       | Inr (Some install) \<Rightarrow>
           if \<not> install \<and> slope \<noteq> (0, 0) then
             (if fst slope = 0 then Inl ZeroDivisionError
              else
                excavator_result
                  (Excavator_direct shapely_ok ex grading_layer
                     (waterlvl ex + Excavator.h_dry ex) section_coords
                     (xmax_top - snd slope / fst slope *
                        (ymax - (waterlvl ex + Excavator.h_dry ex)))
                     mass
                     (Fin (2 * \<bar>xmax_top - snd slope / fst slope *
                                   (ymax - (waterlvl ex + Excavator.h_dry ex))\<bar>))
                     None))
           else Inr install)"
    by (rule Excavator_install_step)
next
  assume "ymax \<le> waterlvl cr + Crane.h_dry cr"
  then have "ymax \<le> waterlvl cr + Crane.h_dry cr \<or> slope = (0, 0)" by simp
  then show "Crane_install cr layer grading_layer ymax section_coords xmax_top mass slope
        length_top loc =
      Crane_direct cr grading_layer ymax section_coords xmax_top mass length_top loc"
    by (rule Crane_install_base)
next
  assume "waterlvl cr + Crane.h_dry cr < ymax"
  then show "Crane_install cr layer grading_layer ymax section_coords xmax_top mass slope
        length_top loc =
      (case Crane_direct cr grading_layer ymax section_coords xmax_top mass length_top loc of
         Inl e \<Rightarrow> Inl e
       | Inr install \<Rightarrow>
           if \<not> install \<and> slope \<noteq> (0, 0) then
             (if fst slope = 0 then Inl ZeroDivisionError
              else
                Crane_direct cr grading_layer (waterlvl cr + Crane.h_dry cr) section_coords
                  (xmax_top - snd slope / fst slope * (ymax - (waterlvl cr + Crane.h_dry cr)))
                  mass
                  (Fin (2 * \<bar>xmax_top - snd slope / fst slope *
                                (ymax - (waterlvl cr + Crane.h_dry cr))\<bar>))
                  None)
           else Inr install)"
    by (rule Crane_install_step)
qed

theorem slope_fallback_terminates_witness:
  "waterlvl digger + Excavator.h_dry digger < 2 \<and>
   Excavator_install shapely_accepts digger ''core'' ''HMA_300/1000'' 2 rectangle 5 9 (Fin 1)
     (1, 2) None = Inr True \<and>
   (1::real) \<le> waterlvl digger + Excavator.h_dry digger \<and>
   Excavator_install shapely_accepts digger ''core'' ''HMA_300/1000'' 1 rectangle 3 9 (Fin 6)
     (1, 2) None = Inr True"
proof -
  have above: "Excavator_install shapely_accepts digger ''core'' ''HMA_300/1000'' 2 rectangle 5 9
      (Fin 1) (1, 2) None = Inr True"
    using slope_fallback_terminates
            [where ex = digger and shapely_ok = shapely_accepts and layer = "''core''"
               and grading_layer = "''HMA_300/1000''" and ymax = 2
               and section_coords = rectangle and xmax_top = 5 and mass = 9
               and length_top = "Fin 1" and slope = "(1, 2)" and loc = None]
    by (simp add: digger_threshold digger_rectangle_top digger_rectangle_margin
          excavator_result_def)
  have at: "Excavator_install shapely_accepts digger ''core'' ''HMA_300/1000'' 1 rectangle 3 9
      (Fin 6) (1, 2) None = Inr True"
    using slope_fallback_terminates
            [where ex = digger and shapely_ok = shapely_accepts and layer = "''core''"
               and grading_layer = "''HMA_300/1000''" and ymax = 1
               and section_coords = rectangle and xmax_top = 3 and mass = 9
               and length_top = "Fin 6" and slope = "(1, 2)" and loc = None]
    by (simp add: digger_threshold digger_rectangle_margin excavator_result_def)
  from above at show ?thesis by (simp add: digger_threshold)
qed

subsection \<open>Crane: totality and the payload sentinel\<close>

text \<open>
  C9, as the source has it. For a non-empty section and a slope whose vertical part is not 0
  (or the disabled slope \<^verbatim>\<open>(0, 0)\<close>) \<^verbatim>\<open>Crane.install\<close> returns a boolean, also when the
  distance exceeds every radius of the chart. When no payload at the selected radius reaches
  the mass, \<^verbatim>\<open>M_max\<close> is the sentinel and the direct test is the grading test together with
  the dry low point; the call returns that value unless the slope fallback applies
  (\<^verbatim>\<open>ymax\<close> above \<^verbatim>\<open>waterlvl + h_dry\<close>, direct test False, slope not \<^verbatim>\<open>(0, 0)\<close>), and then
  it returns the decision of the re-evaluation at \<^verbatim>\<open>waterlvl + h_dry\<close>.
\<close>

theorem Crane_install_total_and_sentinel:
  assumes "section_coords \<noteq> []" and "fst slope \<noteq> 0 \<or> slope = (0, 0)"
  shows "(\<exists>b. Crane_install cr layer grading_layer ymax section_coords xmax_top mass slope
                length_top loc = Inr b) \<and>
         ((case loc of
             None \<Rightarrow> location_equipment [Crane.offset cr] xmax_top section_coords KCrane 0 0 ymax
           | Some (xl, yl) \<Rightarrow> Inr (xl, yl, False)) = Inr (xloc_equip, yloc_equip, flip) \<and>
          fst (crane_capacity (Crane.loading_chart cr)
                 (crane_max_dist section_coords xloc_equip) mass) = NegInf \<longrightarrow>
          Crane_direct cr grading_layer ymax section_coords xmax_top mass length_top loc =
            Inr (grading_layer \<in> dom (design_type cr) \<and>
                 py_min (map snd section_coords) - waterlvl cr \<ge> Crane.h_dry cr) \<and>
          Crane_install cr layer grading_layer ymax section_coords xmax_top mass slope
            length_top loc =
            (if waterlvl cr + Crane.h_dry cr < ymax \<and>
                \<not> (grading_layer \<in> dom (design_type cr) \<and>
                   py_min (map snd section_coords) - waterlvl cr \<ge> Crane.h_dry cr) \<and>
                slope \<noteq> (0, 0)
             then Crane_direct cr grading_layer (waterlvl cr + Crane.h_dry cr) section_coords
                    (xmax_top - snd slope / fst slope * (ymax - (waterlvl cr + Crane.h_dry cr)))
                    mass
                    (Fin (2 * \<bar>xmax_top - snd slope / fst slope *
                                  (ymax - (waterlvl cr + Crane.h_dry cr))\<bar>))
                    None
             else Inr (grading_layer \<in> dom (design_type cr) \<and>
                       py_min (map snd section_coords) - waterlvl cr \<ge> Crane.h_dry cr)))"
proof (intro conjI impI)
  show "\<exists>b. Crane_install cr layer grading_layer ymax section_coords xmax_top mass slope
               length_top loc = Inr b"
    by (rule Crane_install_total [OF assms])
next
  assume h: "(case loc of
             None \<Rightarrow> location_equipment [Crane.offset cr] xmax_top section_coords KCrane 0 0 ymax
           | Some (xl, yl) \<Rightarrow> Inr (xl, yl, False)) = Inr (xloc_equip, yloc_equip, flip) \<and>
          fst (crane_capacity (Crane.loading_chart cr)
                 (crane_max_dist section_coords xloc_equip) mass) = NegInf"
  define B where "B = (grading_layer \<in> dom (design_type cr) \<and>
            py_min (map snd section_coords) - waterlvl cr \<ge> Crane.h_dry cr)"
  define again where "again =
     Crane_direct cr grading_layer (waterlvl cr + Crane.h_dry cr) section_coords
       (xmax_top - snd slope / fst slope * (ymax - (waterlvl cr + Crane.h_dry cr)))
       mass
       (Fin (2 * \<bar>xmax_top - snd slope / fst slope *
                     (ymax - (waterlvl cr + Crane.h_dry cr))\<bar>))
       None"
  have direct:
    "Crane_direct cr grading_layer ymax section_coords xmax_top mass length_top loc = Inr B"
    unfolding B_def
    by (rule Crane_direct_sentinel [OF assms(1) conjunct1 [OF h] conjunct2 [OF h]])
  then show
    "Crane_direct cr grading_layer ymax section_coords xmax_top mass length_top loc =
       Inr (grading_layer \<in> dom (design_type cr) \<and>
            py_min (map snd section_coords) - waterlvl cr \<ge> Crane.h_dry cr)"
    by (simp only: B_def)
  have main: "Crane_install cr layer grading_layer ymax section_coords xmax_top mass slope
            length_top loc =
            (if waterlvl cr + Crane.h_dry cr < ymax \<and> \<not> B \<and> slope \<noteq> (0, 0)
             then again else Inr B)"
  proof (cases "waterlvl cr + Crane.h_dry cr < ymax")
    case True
    have "Crane_install cr layer grading_layer ymax section_coords xmax_top mass slope
            length_top loc =
          (case Crane_direct cr grading_layer ymax section_coords xmax_top mass length_top loc of
             Inl e \<Rightarrow> Inl e
           | Inr install \<Rightarrow>
               if \<not> install \<and> slope \<noteq> (0, 0) then
                 (if fst slope = 0 then Inl ZeroDivisionError else again)
               else Inr install)"
      unfolding again_def by (rule Crane_install_step [OF True])
    then have "Crane_install cr layer grading_layer ymax section_coords xmax_top mass slope
            length_top loc =
          (if \<not> B \<and> slope \<noteq> (0, 0) then
             (if fst slope = 0 then Inl ZeroDivisionError else again)
           else Inr B)"
      by (simp only: direct sum.case)
    with True assms(2) show ?thesis by (cases slope) (simp split: if_splits)
  next
    case False
    then have "ymax \<le> waterlvl cr + Crane.h_dry cr \<or> slope = (0, 0)" by simp
    then have "Crane_install cr layer grading_layer ymax section_coords xmax_top mass slope
           length_top loc =
         Crane_direct cr grading_layer ymax section_coords xmax_top mass length_top loc"
      by (rule Crane_install_base)
    with direct False show ?thesis by simp
  qed
  then show "Crane_install cr layer grading_layer ymax section_coords xmax_top mass slope
            length_top loc =
            (if waterlvl cr + Crane.h_dry cr < ymax \<and>
                \<not> (grading_layer \<in> dom (design_type cr) \<and>
                   py_min (map snd section_coords) - waterlvl cr \<ge> Crane.h_dry cr) \<and>
                slope \<noteq> (0, 0)
             then Crane_direct cr grading_layer (waterlvl cr + Crane.h_dry cr) section_coords
                    (xmax_top - snd slope / fst slope * (ymax - (waterlvl cr + Crane.h_dry cr)))
                    mass
                    (Fin (2 * \<bar>xmax_top - snd slope / fst slope *
                                  (ymax - (waterlvl cr + Crane.h_dry cr))\<bar>))
                    None
             else Inr (grading_layer \<in> dom (design_type cr) \<and>
                       py_min (map snd section_coords) - waterlvl cr \<ge> Crane.h_dry cr))"
    by (simp only: B_def again_def)
qed

theorem Crane_install_total_and_sentinel_witness:
  "rectangle \<noteq> [] \<and>
   location_equipment [Crane.offset hoist] 7 rectangle KCrane 0 0 4 = Inr (6, 4, False) \<and>
   fst (crane_capacity (Crane.loading_chart hoist) (crane_max_dist rectangle 6) 10) = NegInf \<and>
   Crane_direct hoist ''HMA_300/1000'' 4 rectangle 7 10 (Fin 8) None = Inr False \<and>
   Crane_install hoist ''core'' ''HMA_300/1000'' 4 rectangle 7 10 (0, 0) (Fin 8) None = Inr False"
proof -
  have sec: "rectangle \<noteq> []" by (simp add: rectangle_facts)
  have slope: "fst (0::real, 0::real) \<noteq> 0 \<or> (0::real, 0::real) = (0, 0)" by simp
  have loc: "location_equipment [Crane.offset hoist] 7 rectangle KCrane 0 0 4 = Inr (6, 4, False)"
    by (simp add: location_equipment_def hoist_fields rectangle_facts)
  have cap: "fst (crane_capacity (Crane.loading_chart hoist) (crane_max_dist rectangle 6) 10)
      = NegInf"
    by (simp add: hoist_capacity)
  from Crane_install_total_and_sentinel [OF sec slope,
         where cr = hoist and layer = "''core''" and grading_layer = "''HMA_300/1000''"
           and ymax = 4 and xmax_top = 7 and mass = 10 and length_top = "Fin 8"
           and loc = None and xloc_equip = 6 and yloc_equip = 4 and flip = False]
       loc cap sec
  show ?thesis by (simp add: hoist_rectangle_top)
qed

text \<open>
  C9 as the specification words it fails: at the selected radius 6 no payload reaches the
  mass 10 and the low point is not dry, yet the call returns True through the slope
  fallback.
\<close>

theorem Crane_install_sentinel_counterexample:
  "location_equipment [Crane.offset hoist] 7 rectangle KCrane 0 0 4 = Inr (6, 4, False) \<and>
   crane_capacity (Crane.loading_chart hoist) (crane_max_dist rectangle 6) 10 = (NegInf, 0, 0) \<and>
   \<not> py_min (map snd rectangle) - waterlvl hoist \<ge> Crane.h_dry hoist \<and>
   Crane_install hoist ''core'' ''HMA_300/1000'' 4 rectangle 7 10 (2, 3) (Fin 8) None = Inr True"
proof -
  have "waterlvl hoist + Crane.h_dry hoist < 4" by (simp add: hoist_threshold)
  from Crane_install_step [OF this]
  have "Crane_install hoist ''core'' ''HMA_300/1000'' 4 rectangle 7 10 (2, 3) (Fin 8) None
      = Inr True"
    by (simp add: hoist_threshold hoist_rectangle_top hoist_rectangle_margin)
  moreover have "crane_capacity (Crane.loading_chart hoist) (crane_max_dist rectangle 6) 10
      = (NegInf, 0, 0)"
    by (simp add: hoist_capacity)
  ultimately show ?thesis
    by (simp add: location_equipment_def hoist_fields rectangle_facts)
qed

subsection \<open>Auxiliary facts: the barge\<close>



lemma Barge_clearance_Truck:
  assumes "the_instance self = ITruck t"
  shows "Barge_clearance shapely_ok self layer grading_layer slope section_coords xmax_top mass
           = Inr (False, ITruck t)"
  using assms by (simp add: Barge_clearance_def Let_def)

lemma Truck_install_kw_level:
  "Truck_install_kw t layer grading_layer section_coords [''ymax'' \<mapsto> a, ''level'' \<mapsto> b]
     = Inl TypeError"
  by (simp add: Truck_install_kw_def)

text \<open>
  The clearance statement leaves a mounted crane or excavator with the barge's water level
  and the dry margin 0 when the clearance condition holds, and untouched otherwise.
\<close>

lemma Barge_clearance_Crane:
  assumes "the_instance self = ICrane c"
    and "Barge_clearance shapely_ok self layer grading_layer slope section_coords xmax_top mass
           = Inr (b, i)"
  shows "i = ICrane (if py_max (map snd section_coords)
                          \<ge> waterlvl self - Barge.installation_waterdepth self - Barge.ukc self
                     then c\<lparr>waterlvl := waterlvl self, Crane.h_dry := 0\<rparr> else c)"
  using assms
  by (simp add: Barge_clearance_def Let_def split: if_splits sum.splits prod.splits)

lemma Barge_clearance_Excavator:
  assumes "the_instance self = IExcavator ex"
    and "Barge_clearance shapely_ok self layer grading_layer slope section_coords xmax_top mass
           = Inr (b, i)"
  shows "i = IExcavator ex \<or>
         i = IExcavator (ex\<lparr>waterlvl := waterlvl self, Excavator.h_dry := 0\<rparr>)"
  using assms
  by (simp add: Barge_clearance_def Let_def split: if_splits sum.splits prod.splits)

lemma location_equipment_total:
  "section_coords \<noteq> [] \<Longrightarrow>
   \<exists>xe ye fl. location_equipment args xpoint section_coords equip a b ymax = Inr (xe, ye, fl)"
  by (auto simp add: location_equipment_def Let_def)

lemma Barge_clearance_Crane_total:
  assumes "the_instance self = ICrane c" and "section_coords \<noteq> []" and "fst slope \<noteq> 0"
  shows "\<exists>b c'. Barge_clearance shapely_ok self layer grading_layer slope section_coords xmax_top
                   mass = Inr (b, ICrane c')"
proof (cases "py_max (map snd section_coords)
                \<ge> waterlvl self - Barge.installation_waterdepth self - Barge.ukc self")
  case False
  with assms(1) show ?thesis by (auto simp add: Barge_clearance_def Let_def)
next
  case True
  let ?yiw = "waterlvl self - Barge.installation_waterdepth self"
  let ?args = "[(py_max (map snd section_coords) - ?yiw) * snd slope / fst slope,
                margin_x self, Crane.offset c]"
  let ?xtop = "fst (py_max_tuple section_coords)"
  let ?c = "c\<lparr>waterlvl := waterlvl self, Crane.h_dry := 0\<rparr>"
  obtain xe ye fl where
    loc: "location_equipment ?args ?xtop section_coords KBarge ?yiw (height self) 0
            = Inr (xe, ye, fl)"
    using location_equipment_total [OF assms(2)] by blast
  have "(0::real, 0::real) = (0, 0)" by simp
  then have "fst (0::real, 0::real) \<noteq> 0 \<or> (0::real, 0::real) = (0, 0)" by (rule disjI2)
  from Crane_install_total [OF assms(2) this] obtain b where
    "Crane_install ?c layer grading_layer (waterlvl self + height self) section_coords xmax_top
       mass (0, 0) PosInf (Some (xe, ye)) = Inr b" by blast
  with True assms(1,3) loc show ?thesis
    by (simp add: Barge_clearance_def Let_def)
qed

subsection \<open>Auxiliary facts: unknown gradings\<close>





subsection \<open>Auxiliary facts: the concrete barges\<close>

lemma Crane_install_no_slope:
  "Crane_install self layer grading_layer ymax section_coords xmax_top mass (0, 0) length_top loc
     = Crane_direct self grading_layer ymax section_coords xmax_top mass length_top loc"
  by (rule Crane_install_base) simp

lemma toe_facts:
  "toe \<noteq> []" "py_min (map snd toe) = -3" "py_max (map snd toe) = -1"
  "py_min (map fst toe) = 0" "py_max (map fst toe) = 4" "fst (py_max_tuple toe) = 4"
  "list_all (\<lambda>x. 0 \<le> x) (map fst toe)"
  by (simp_all add: toe_def py_min_def py_max_def py_max_tuple_def tuple_less_def)

lemma bench_facts: "bench \<noteq> []" "py_max (map snd bench) = 4"
  by (simp_all add: bench_def py_max_def)

lemma pontoon_fields:
  "waterlvl pontoon = 0" "Barge.installation_waterdepth pontoon = 2" "height pontoon = 1"
  "margin_x pontoon = 2" "Barge.ukc pontoon = 0" "the_instance pontoon = ICrane hoist"
  "design_type pontoon = barge_graded"
  by (simp_all add: pontoon_def)

lemma ferry_fields:
  "waterlvl ferry = 3" "height ferry = 2" "the_instance ferry = ITruck lorry"
  by (simp_all add: ferry_def)

lemma lorry_fields:
  "waterlvl lorry = 0" "design_type lorry = graded" "''HMA_300/1000'' \<in> dom (design_type lorry)"
  by (simp_all add: lorry_def graded_def)

lemma hoist_afloat_fields:
  "waterlvl hoist_afloat = 0" "Crane.h_dry hoist_afloat = 0" "Crane.offset hoist_afloat = 1"
  "Crane.required_length hoist_afloat = 0"
  "''HMA_300/1000'' \<in> dom (design_type hoist_afloat)"
  by (simp_all add: hoist_afloat_def hoist_def graded_def)

lemma hoist_afloat_capacity:
  "crane_capacity (Crane.loading_chart hoist_afloat) (crane_max_dist toe 9) 10 = (NegInf, 0, 0)"
  "crane_capacity (Crane.loading_chart hoist_afloat) (crane_max_dist toe 2) 10 = (Fin 12, 3, 5)"
  by (simp_all add: crane_max_dist_def crane_capacity_def crane_cells_def py_max_tuple_def
        tuple_less_def py_min_def py_max_def hoist_afloat_def hoist_def toe_def Let_def)

lemma hoist_afloat_far:
  "Crane_direct hoist_afloat ''HMA_300/1000'' 1 toe 4 10 PosInf (Some (9, -1)) = Inr False"
  by (simp add: Crane_direct_def Let_def toe_facts hoist_afloat_fields hoist_afloat_capacity
        sqrt_boom le_nan_def)

lemma hoist_afloat_mid:
  "Crane_direct hoist_afloat ''HMA_300/1000'' 1 toe 4 10 PosInf (Some (2, -1)) = Inr True"
  by (simp add: Crane_direct_def Let_def toe_facts hoist_afloat_fields hoist_afloat_capacity
        sqrt_boom le_nan_def)

lemma hoist_afloat_fold: "hoist\<lparr>waterlvl := 0, Crane.h_dry := 0\<rparr> = hoist_afloat"
  by (simp add: hoist_afloat_def)

lemma pontoon_clearance:
  "Barge_clearance shapely_accepts pontoon ''core'' ''HMA_300/1000'' (1, 2) toe 4 10
     = Inr (False, ICrane hoist_afloat)"
  by (simp add: Barge_clearance_def Let_def pontoon_fields toe_facts hoist_fields
        location_equipment_def hoist_afloat_fold Crane_install_no_slope hoist_afloat_far)

lemma pontoon_install:
  "Barge_install shapely_accepts pontoon ''core'' ''HMA_300/1000'' (1, 2) toe 4 10
     = Inr (True, pontoon\<lparr>the_instance := ICrane hoist_afloat\<rparr>)"
  by (simp add: Barge_install_def Let_def pontoon_clearance instrument_design_type_def
        pontoon_fields toe_facts hoist_fields Crane_install_no_slope hoist_afloat_mid)


subsection \<open>Auxiliary facts: an unknown grading class\<close>






subsection \<open>The grading gate\<close>





subsection \<open>Barge with a mounted crane\<close>

text \<open>
  C2. The statement at line 1585 of the source,
  \<^verbatim>\<open>if isinstance(self.instance, PlateFeeder) or isinstance(self.instance, Truck): .. else: ..\<close>,
  runs after the clearance statement, and its \<^verbatim>\<open>else\<close> branch sets \<^verbatim>\<open>install = True\<close> for
  every mounted Crane. So for a Barge with a Crane and an allowed grading, every returning call
  returns True: the decision that the Crane was asked for under the clearance condition is
  overwritten.
\<close>

theorem Barge_install_Crane_always_True:
  assumes "the_instance self = ICrane c" and "grading_layer \<in> dom (design_type c)"
    and "section_coords \<noteq> []" and "fst slope \<noteq> 0"
  shows "\<exists>self'. Barge_install shapely_ok self layer grading_layer slope section_coords
                  xmax_top mass = Inr (True, self')"
proof -
  from Barge_clearance_Crane_total [OF assms(1,3,4)] obtain b c' where
    cl: "Barge_clearance shapely_ok self layer grading_layer slope section_coords xmax_top mass
           = Inr (b, ICrane c')" by blast
  have "(0::real, 0::real) = (0, 0)" by simp
  then have "fst (0::real, 0::real) \<noteq> 0 \<or> (0::real, 0::real) = (0, 0)" by (rule disjI2)
  from Crane_install_total [OF assms(3) this] obtain b' where
    "Crane_install c' layer grading_layer (waterlvl self + height self) section_coords xmax_top
       mass (0, 0) PosInf
       (Some ((py_min (map fst section_coords) + py_max (map fst section_coords)) / 2,
              waterlvl self - Barge.installation_waterdepth self + height self)) = Inr b'"
    by blast
  with cl assms(1,2,3) show ?thesis
    by (simp add: Barge_install_def Let_def instrument_design_type_def)
qed

theorem Barge_install_Crane_always_True_witness:
  "the_instance pontoon = ICrane hoist \<and>
   ''HMA_300/1000'' \<in> dom (design_type hoist) \<and> toe \<noteq> [] \<and>
   py_max (map snd toe)
     \<ge> waterlvl pontoon - Barge.installation_waterdepth pontoon - Barge.ukc pontoon \<and>
   Crane_install hoist_afloat ''core'' ''HMA_300/1000'' 1 toe 4 10 (0, 0) PosInf (Some (9, -1))
     = Inr False \<and>
   Barge_install shapely_accepts pontoon ''core'' ''HMA_300/1000'' (1, 2) toe 4 10
     = Inr (True, pontoon\<lparr>the_instance := ICrane hoist_afloat\<rparr>)"
proof -
  have inst: "the_instance pontoon = ICrane hoist" by (simp add: pontoon_fields)
  have g: "''HMA_300/1000'' \<in> dom (design_type hoist)" by (simp add: hoist_fields)
  have sec: "toe \<noteq> []" by (simp add: toe_facts)
  have slope: "fst (1::real, 2::real) \<noteq> 0" by simp
  have far: "Crane_install hoist_afloat ''core'' ''HMA_300/1000'' 1 toe 4 10 (0, 0) PosInf
      (Some (9, -1)) = Inr False"
    by (simp add: Crane_install_no_slope hoist_afloat_far)
  from Barge_install_Crane_always_True [OF inst g sec slope,
         where shapely_ok = shapely_accepts and layer = "''core''" and xmax_top = 4
           and mass = 10]
       pontoon_install inst g sec far
  show ?thesis by (simp add: pontoon_fields toe_facts)
qed

subsection \<open>Barge: the mounted instrument after the call\<close>

text \<open>
  C6, as the source has it. \<^verbatim>\<open>Barge.install\<close> writes the barge's water level and the dry
  margin 0 into the mounted instrument and never writes the earlier values back: after a
  returning call with an allowed grading a mounted Excavator has
  \<^verbatim>\<open>waterlvl = self.waterlvl\<close> and \<^verbatim>\<open>h_dry = 0\<close>, and so has a mounted Crane when the
  clearance condition holds; a Crane is left as it was when the clearance condition fails, and
  every instrument when the grading is not allowed.
\<close>

theorem Barge_install_reparents:
  assumes "Barge_install shapely_ok self layer grading_layer slope section_coords xmax_top mass
             = Inr (b, self')"
  shows
    "(grading_layer \<notin> dom (instrument_design_type (the_instance self)) \<longrightarrow> self' = self) \<and>
     (grading_layer \<in> dom (instrument_design_type (the_instance self)) \<longrightarrow>
        (\<forall>ex. the_instance self = IExcavator ex \<longrightarrow>
           the_instance self' =
             IExcavator (ex\<lparr>waterlvl := waterlvl self, Excavator.h_dry := 0\<rparr>)) \<and>
        (\<forall>c. the_instance self = ICrane c \<longrightarrow>
           the_instance self' =
             ICrane (if py_max (map snd section_coords)
                          \<ge> waterlvl self - Barge.installation_waterdepth self - Barge.ukc self
                     then c\<lparr>waterlvl := waterlvl self, Crane.h_dry := 0\<rparr> else c)))"
proof (intro conjI impI allI)
  assume "grading_layer \<notin> dom (instrument_design_type (the_instance self))"
  with assms show "self' = self"
    by (simp add: Barge_install_def Let_def split: if_splits)
next
  fix ex
  assume g: "grading_layer \<in> dom (instrument_design_type (the_instance self))"
    and inst: "the_instance self = IExcavator ex"
  from assms g obtain b0 i where
    cl: "Barge_clearance shapely_ok self layer grading_layer slope section_coords xmax_top mass
           = Inr (b0, i)"
    by (cases "Barge_clearance shapely_ok self layer grading_layer slope section_coords
                 xmax_top mass")
       (auto simp: Barge_install_def Let_def split: if_splits)
  from Barge_clearance_Excavator [OF inst cl]
  have "i = IExcavator ex \<or>
        i = IExcavator (ex\<lparr>waterlvl := waterlvl self, Excavator.h_dry := 0\<rparr>)" .
  then show "the_instance self' =
             IExcavator (ex\<lparr>waterlvl := waterlvl self, Excavator.h_dry := 0\<rparr>)"
  proof
    assume "i = IExcavator ex"
    with assms g cl show ?thesis
      by (auto simp: Barge_install_def Let_def split: if_splits sum.splits)
  next
    assume "i = IExcavator (ex\<lparr>waterlvl := waterlvl self, Excavator.h_dry := 0\<rparr>)"
    with assms g cl show ?thesis
      by (auto simp: Barge_install_def Let_def split: if_splits sum.splits)
  qed
next
  fix c
  assume g: "grading_layer \<in> dom (instrument_design_type (the_instance self))"
    and inst: "the_instance self = ICrane c"
  from assms g obtain b0 i where
    cl: "Barge_clearance shapely_ok self layer grading_layer slope section_coords xmax_top mass
           = Inr (b0, i)"
    by (cases "Barge_clearance shapely_ok self layer grading_layer slope section_coords
                 xmax_top mass")
       (auto simp: Barge_install_def Let_def split: if_splits)
  note i = Barge_clearance_Crane [OF inst cl]
  from assms g cl show "the_instance self' =
             ICrane (if py_max (map snd section_coords)
                          \<ge> waterlvl self - Barge.installation_waterdepth self - Barge.ukc self
                     then c\<lparr>waterlvl := waterlvl self, Crane.h_dry := 0\<rparr> else c)"
    unfolding i
    by (auto simp: Barge_install_def Let_def split: if_splits sum.splits)
qed

theorem Barge_install_reparents_witness:
  "Barge_install shapely_accepts pontoon ''core'' ''HMA_300/1000'' (1, 2) toe 4 10
     = Inr (True, pontoon\<lparr>the_instance := ICrane hoist_afloat\<rparr>) \<and>
   ''HMA_300/1000'' \<in> dom (instrument_design_type (the_instance pontoon)) \<and>
   the_instance pontoon = ICrane hoist \<and>
   py_max (map snd toe)
     \<ge> waterlvl pontoon - Barge.installation_waterdepth pontoon - Barge.ukc pontoon \<and>
   the_instance (pontoon\<lparr>the_instance := ICrane hoist_afloat\<rparr>) =
     ICrane (hoist\<lparr>waterlvl := waterlvl pontoon, Crane.h_dry := 0\<rparr>)"
proof -
  have g: "''HMA_300/1000'' \<in> dom (instrument_design_type (the_instance pontoon))"
    by (simp add: instrument_design_type_def pontoon_fields hoist_fields)
  have inst: "the_instance pontoon = ICrane hoist" by (simp add: pontoon_fields)
  have clear: "py_max (map snd toe)
     \<ge> waterlvl pontoon - Barge.installation_waterdepth pontoon - Barge.ukc pontoon"
    by (simp add: pontoon_fields toe_facts)
  from Barge_install_reparents [OF pontoon_install] g inst clear
  have "the_instance (pontoon\<lparr>the_instance := ICrane hoist_afloat\<rparr>) =
     ICrane (hoist\<lparr>waterlvl := waterlvl pontoon, Crane.h_dry := 0\<rparr>)"
    by simp
  with pontoon_install g inst clear show ?thesis by simp
qed

text \<open>
  C6 as the specification words it fails: the crane \<open>hoist\<close> has water level 1 and dry
  margin 1 before the call, and the barge holds it with water level 0 and dry margin 0 after
  the call has returned.
\<close>

theorem Barge_install_mutates_counterexample:
  "the_instance pontoon = ICrane hoist \<and> waterlvl hoist = 1 \<and> Crane.h_dry hoist = 1 \<and>
   Barge_install shapely_accepts pontoon ''core'' ''HMA_300/1000'' (1, 2) toe 4 10
     = Inr (True, pontoon\<lparr>the_instance := ICrane hoist_afloat\<rparr>) \<and>
   waterlvl hoist_afloat = 0 \<and> Crane.h_dry hoist_afloat = 0"
  using pontoon_install
  by (simp add: pontoon_fields hoist_fields hoist_afloat_fields)

subsection \<open>Barge with a mounted truck\<close>

text \<open>
  C8. The barge calls the mounted instrument's \<^verbatim>\<open>install\<close> with the keyword \<^verbatim>\<open>level\<close> and
  without \<^verbatim>\<open>length_top\<close>. \<^verbatim>\<open>PlateFeeder.install\<close> has that signature; \<^verbatim>\<open>Truck.install\<close>
  has no parameter \<^verbatim>\<open>level\<close> and requires \<^verbatim>\<open>length_top\<close>, so for a mounted Truck with an
  allowed grading the call raises TypeError and no decision of the Truck is returned.
\<close>

theorem Barge_install_Truck_TypeError:
  assumes "the_instance self = ITruck t" and "grading_layer \<in> dom (design_type t)"
    and "section_coords \<noteq> []"
  shows "Barge_install shapely_ok self layer grading_layer slope section_coords xmax_top mass
           = Inl TypeError"
  using assms
  by (simp add: Barge_install_def Let_def instrument_design_type_def Barge_clearance_Truck
        Truck_install_kw_level)

theorem Barge_install_Truck_TypeError_witness:
  "the_instance ferry = ITruck lorry \<and> ''HMA_300/1000'' \<in> dom (design_type lorry) \<and>
   bench \<noteq> [] \<and> waterlvl ferry + height ferry = 5 \<and> py_max (map snd bench) = 4 \<and>
   Barge_install shapely_accepts ferry ''core'' ''HMA_300/1000'' (1, 2) bench 4 1
     = Inl TypeError"
proof -
  have inst: "the_instance ferry = ITruck lorry" by (simp add: ferry_fields)
  have g: "''HMA_300/1000'' \<in> dom (design_type lorry)" by (rule lorry_fields(3))
  have sec: "bench \<noteq> []" by (simp add: bench_facts)
  from Barge_install_Truck_TypeError [OF inst g sec,
         where shapely_ok = shapely_accepts and layer = "''core''" and slope = "(1, 2)"
           and xmax_top = 4 and mass = 1]
       inst g sec
  show ?thesis by (simp add: ferry_fields bench_facts)
qed

end
